theory Spec2Isabelle
  imports Complex_Main
begin

section \<open>Python values and exceptions\<close>

text \<open>
  The values that travel through the cache and the session: the JSON-representable part
  of Python's objects, and \<open>PObj i s\<close> for an instance of a user class, with its identity
  \<open>i\<close> and the text \<open>s\<close> its \<open>__repr__\<close> returns. \<open>PNone\<close> is Python's \<open>None\<close>, which the
  cache interface also uses for "absent".
\<close>

datatype pyval =
    PNone
  | PBool bool
  | PInt int
  | PStr string
  | PList "pyval list"
  | PDict "(string \<times> pyval) list"
  | PObj nat string

text \<open>Python's truth value of an object, as tested by \<open>if value:\<close> and \<open>not value\<close>.\<close>

fun truthy :: "pyval \<Rightarrow> bool" where
  "truthy PNone = False"
| "truthy (PBool b) = b"
| "truthy (PInt n) = (n \<noteq> 0)"
| "truthy (PStr s) = (s \<noteq> [])"
| "truthy (PList xs) = (xs \<noteq> [])"
| "truthy (PDict kvs) = (kvs \<noteq> [])"
| "truthy (PObj i s) = True"

text \<open>
  The exceptions that occur in the modelled code: those of the redis client
  (\<open>ConnectionError\<close>, \<open>TimeoutError\<close>, and \<open>ResponseError\<close> for a command the server
  rejects), Python's \<open>KeyError\<close>, the decoder's error, and \<open>Raised\<close> for whatever a wrapped
  computation raises on its own.
\<close>

datatype exn =
    ConnectionError
  | TimeoutError
  | ResponseError
  | KeyError string
  | JSONDecodeError
  | Raised string

text \<open>The truth value of an optional integer (\<open>ttl\<close>, \<open>max_age\<close>): neither \<open>None\<close> nor 0.\<close>

fun truthy_int :: "int option \<Rightarrow> bool" where
  "truthy_int None = False"
| "truthy_int (Some n) = (n \<noteq> 0)"

section \<open>caching.py: InMemoryCache\<close>

text \<open>
  \<open>self.store\<close> is a dict from keys to pairs \<open>(value, expires_at)\<close>. The readings of
  \<open>time.time()\<close> are passed in as \<open>now\<close>; they are modelled as real numbers. The lock
  only serialises the coroutines and has no counterpart in a sequential model.
\<close>

type_synonym mem_store = "string \<rightharpoonup> (pyval \<times> real option)"

definition InMemoryCache_get :: "mem_store \<Rightarrow> string \<Rightarrow> real \<Rightarrow> pyval \<times> mem_store" where
  "InMemoryCache_get store key now =
     (case store key of
        None \<Rightarrow> (PNone, store)
      | Some (v, expires_at) \<Rightarrow>
          (case expires_at of
             None \<Rightarrow> (v, store)
           | Some e \<Rightarrow> if e > now then (v, store) else (PNone, store(key := None))))"

definition InMemoryCache_set ::
  "mem_store \<Rightarrow> string \<Rightarrow> pyval \<Rightarrow> int option \<Rightarrow> real \<Rightarrow> mem_store" where
  "InMemoryCache_set store key v ttl now =
     (let expires_at = (if truthy_int ttl then Some (now + real_of_int (the ttl)) else None)
      in store(key \<mapsto> (v, expires_at)))"

text \<open>\<open>del self.store[key]\<close> raises \<open>KeyError\<close> when the key is not in the dict.\<close>

definition InMemoryCache_delete :: "mem_store \<Rightarrow> string \<Rightarrow> exn + mem_store" where
  "InMemoryCache_delete store key =
     (case store key of
        None \<Rightarrow> Inl (KeyError key)
      | Some _ \<Rightarrow> Inr (store(key := None)))"

section \<open>The remote key-value store\<close>

text \<open>
  The redis client is a library outside the repository. Its model is the key-value
  protocol the code relies on, with the server's expiry:
  \<^item> \<open>fault\<close> is what the connection does at present: \<open>None\<close> when commands reach the
    server, \<open>Some e\<close> when every command raises \<open>e\<close> (\<open>ConnectionError\<close> for a server that
    cannot be reached, \<open>TimeoutError\<close> for one that does not answer in time);
  \<^item> \<open>kv\<close> is the server's table: under a key, the payload and the instant at which the
    entry expires, if it has one;
  \<^item> \<open>issued\<close> records every command the program hands to the client, in order,
    whether or not it reaches the server.
  \<open>now\<close> is the server's clock when the command arrives. \<open>client.set(key, payload, ttl)\<close>
  passes \<open>ttl\<close> as the \<open>EX\<close> option: the entry expires \<open>ttl\<close> seconds later, and the server
  rejects an \<open>EX\<close> that is not positive (\<open>ResponseError\<close>). An expired entry is gone: a
  \<open>GET\<close> does not return it and the server drops it. Writes by other processes are
  outside the model.
\<close>

datatype command = GET string | SET string string "int option" | DEL string

record redis =
  fault :: "exn option"
  kv :: "string \<rightharpoonup> (string \<times> real option)"
  issued :: "command list"

definition unexpired ::
  "real \<Rightarrow> (string \<times> real option) option \<Rightarrow> (string \<times> real option) option" where
  "unexpired now entry =
     (case entry of
        None \<Rightarrow> None
      | Some (payload, None) \<Rightarrow> Some (payload, None)
      | Some (payload, Some e) \<Rightarrow> if now < e then Some (payload, Some e) else None)"

fun ex_accepted :: "int option \<Rightarrow> bool" where
  "ex_accepted None = True"
| "ex_accepted (Some n) = (0 < n)"

definition client_get :: "redis \<Rightarrow> string \<Rightarrow> real \<Rightarrow> (exn + string option) \<times> redis" where
  "client_get r k now =
     (case fault r of
        Some e \<Rightarrow> (Inl e, r\<lparr>issued := issued r @ [GET k]\<rparr>)
      | None \<Rightarrow>
          (Inr (map_option fst (unexpired now (kv r k))),
           r\<lparr>kv := (kv r)(k := unexpired now (kv r k)), issued := issued r @ [GET k]\<rparr>))"

definition client_set ::
  "redis \<Rightarrow> string \<Rightarrow> string \<Rightarrow> int option \<Rightarrow> real \<Rightarrow> (exn + unit) \<times> redis" where
  "client_set r k payload ex now =
     (case fault r of
        Some e \<Rightarrow> (Inl e, r\<lparr>issued := issued r @ [SET k payload ex]\<rparr>)
      | None \<Rightarrow>
          if ex_accepted ex
          then (Inr (),
                r\<lparr>kv := (kv r)(k \<mapsto> (payload, map_option (\<lambda>n. now + real_of_int n) ex)),
                  issued := issued r @ [SET k payload ex]\<rparr>)
          else (Inl ResponseError, r\<lparr>issued := issued r @ [SET k payload ex]\<rparr>))"

definition client_delete :: "redis \<Rightarrow> string \<Rightarrow> (exn + unit) \<times> redis" where
  "client_delete r k =
     (case fault r of
        Some e \<Rightarrow> (Inl e, r\<lparr>issued := issued r @ [DEL k]\<rparr>)
      | None \<Rightarrow> (Inr (), r\<lparr>kv := (kv r)(k := None), issued := issued r @ [DEL k]\<rparr>))"

section \<open>tools.py: ORJSONSerializer\<close>

text \<open>
  \<open>orjson.dumps\<close> and \<open>orjson.loads\<close> belong to a library outside the repository and are
  parameters of the model. \<open>loads\<close> may raise (a payload that is not JSON).
\<close>

record orjson =
  dumps :: "pyval \<Rightarrow> string"
  loads :: "string \<Rightarrow> exn + pyval"

definition ORJSONSerializer_encode :: "orjson \<Rightarrow> pyval \<Rightarrow> string" where
  "ORJSONSerializer_encode oj v = dumps oj v"

definition ORJSONSerializer_decode :: "orjson \<Rightarrow> string \<Rightarrow> exn + pyval" where
  "ORJSONSerializer_decode oj s = loads oj s"

section \<open>caching.py: RedisCache\<close>

text \<open>\<open>if self._prefix: key = f"{self._prefix}:{key}"\<close>\<close>

definition prefixed :: "string option \<Rightarrow> string \<Rightarrow> string" where
  "prefixed prefix key =
     (case prefix of
        None \<Rightarrow> key
      | Some p \<Rightarrow> if p \<noteq> [] then p @ '':'' @ key else key)"

text \<open>
  \<open>except ConnectionError: return\<close> around a block: the block's \<open>ConnectionError\<close>
  becomes the result \<open>dflt\<close>, every other exception leaves the function. The three
  methods below take \<open>now\<close>, the server's clock when their command arrives.
\<close>

definition except_ConnectionError :: "'a \<Rightarrow> exn + 'a \<Rightarrow> exn + 'a" where
  "except_ConnectionError dflt res =
     (case res of
        Inl e \<Rightarrow> if e = ConnectionError then Inr dflt else Inl e
      | Inr x \<Rightarrow> Inr x)"

definition RedisCache_get ::
  "orjson \<Rightarrow> string option \<Rightarrow> redis \<Rightarrow> string \<Rightarrow> real \<Rightarrow> (exn + pyval) \<times> redis" where
  "RedisCache_get oj prefix r key now =
     (if key = [] then (Inr PNone, r)
      else
        let k = prefixed prefix key;
            (res, r') = client_get r k now
        in (except_ConnectionError PNone
              (case res of
                 Inl e \<Rightarrow> Inl e
               | Inr None \<Rightarrow> Inr PNone
               | Inr (Some payload) \<Rightarrow>
                   if payload \<noteq> [] then ORJSONSerializer_decode oj payload else Inr PNone),
            r'))"

definition RedisCache_set ::
  "orjson \<Rightarrow> string option \<Rightarrow> redis \<Rightarrow> string \<Rightarrow> pyval \<Rightarrow> int option \<Rightarrow> real \<Rightarrow>
   (exn + unit) \<times> redis" where
  "RedisCache_set oj prefix r key v ttl now =
     (if key = [] \<or> \<not> truthy v then (Inr (), r)
      else
        let k = prefixed prefix key;
            (res, r') = client_set r k (ORJSONSerializer_encode oj v) ttl now
        in (except_ConnectionError () res, r'))"

definition RedisCache_delete ::
  "string option \<Rightarrow> redis \<Rightarrow> string \<Rightarrow> (exn + unit) \<times> redis" where
  "RedisCache_delete prefix r key =
     (if key = [] then (Inr (), r)
      else
        let k = prefixed prefix key;
            (res, r') = client_delete r k
        in (except_ConnectionError () res, r'))"

section \<open>caching.py: the global cache and the decorator\<close>

text \<open>
  The module-level \<open>cache\<close> is an \<open>InMemoryCache\<close> until \<open>set_redis_cache\<close> replaces it
  by a \<open>RedisCache\<close>; the decorator calls whichever is there. \<open>now\<close> is the instant of
  the call on the clock that keeps the expiry: the process's for the first, the server's
  for the second.
\<close>

datatype cache = InMemory mem_store | Redis "string option" redis

fun cache_get :: "orjson \<Rightarrow> cache \<Rightarrow> string \<Rightarrow> real \<Rightarrow> (exn + pyval) \<times> cache" where
  "cache_get oj (InMemory store) key now =
     (let (v, store') = InMemoryCache_get store key now in (Inr v, InMemory store'))"
| "cache_get oj (Redis prefix r) key now =
     (let (res, r') = RedisCache_get oj prefix r key now in (res, Redis prefix r'))"

fun cache_set ::
  "orjson \<Rightarrow> cache \<Rightarrow> string \<Rightarrow> pyval \<Rightarrow> int option \<Rightarrow> real \<Rightarrow> (exn + unit) \<times> cache" where
  "cache_set oj (InMemory store) key v ttl now =
     (Inr (), InMemory (InMemoryCache_set store key v ttl now))"
| "cache_set oj (Redis prefix r) key v ttl now =
     (let (res, r') = RedisCache_set oj prefix r key v ttl now in (res, Redis prefix r'))"

fun cache_delete :: "cache \<Rightarrow> string \<Rightarrow> (exn + unit) \<times> cache" where
  "cache_delete (InMemory store) key =
     (case InMemoryCache_delete store key of
        Inl e \<Rightarrow> (Inl e, InMemory store)
      | Inr store' \<Rightarrow> (Inr (), InMemory store'))"
| "cache_delete (Redis prefix r) key =
     (let (res, r') = RedisCache_delete prefix r key in (res, Redis prefix r'))"

text \<open>
  \<open>hashlib.md5(...).hexdigest()\<close> and Python's rendering of a tuple and of a dict
  (\<open>str\<close>) are library functions, taken as parameters.
\<close>

record pylib =
  md5_hexdigest :: "string \<Rightarrow> string"
  repr_tuple :: "pyval list \<Rightarrow> string"
  repr_dict :: "(string \<times> pyval) list \<Rightarrow> string"

text \<open>
  \<open>default_key_builder(func, *args, **kwargs)\<close> is called by the wrapper as
  \<open>default_key_builder(_func_or_coro, args, kwargs)\<close>: its own \<open>args\<close> is the pair of
  the wrapper's argument tuple and keyword dict, and its own \<open>kwargs\<close> is empty. The
  digest is taken of \<open>f"{func.__name__}:{args}:{kwargs}"\<close>.
\<close>

definition default_key_builder ::
  "pylib \<Rightarrow> string \<Rightarrow> pyval list \<Rightarrow> (string \<times> pyval) list \<Rightarrow> string" where
  "default_key_builder lib name args kwargs =
     md5_hexdigest lib
       (name @ '':'' @ (''('' @ repr_tuple lib args @ '', '' @ repr_dict lib kwargs @ '')'')
        @ '':'' @ ''{}'')"

text \<open>
  A wrapped computation: its \<open>__name__\<close> and what a call does. A call reads and changes
  a state \<open>'w\<close> of its own (its side effects) and returns a value or raises. Whether it
  is a coroutine function or runs in the thread pool does not change the result.
\<close>

record 'w func =
  fname :: string
  body :: "pyval list \<Rightarrow> (string \<times> pyval) list \<Rightarrow> 'w \<Rightarrow> (exn + pyval) \<times> 'w"

text \<open>The keyword arguments of \<open>cached\<close>.\<close>

record cached_opts =
  opt_cache_key :: "string option"
  opt_ttl :: "int option"
  opt_namespace :: "string option"
  opt_key_builder :: "(string \<Rightarrow> pyval list \<Rightarrow> (string \<times> pyval) list \<Rightarrow> string) option"

definition wrapper_key ::
  "pylib \<Rightarrow> cached_opts \<Rightarrow> string \<Rightarrow> pyval list \<Rightarrow> (string \<times> pyval) list \<Rightarrow> string" where
  "wrapper_key lib opts name args kwargs =
     (let key =
        (if opt_cache_key opts \<noteq> None \<and> opt_cache_key opts \<noteq> Some [] then the (opt_cache_key opts)
         else (case opt_key_builder opts of
                 Some kb \<Rightarrow> kb name args kwargs
               | None \<Rightarrow> default_key_builder lib name args kwargs))
      in (case opt_namespace opts of
            None \<Rightarrow> key
          | Some ns \<Rightarrow> if ns \<noteq> [] then ns @ '':'' @ key else key))"

text \<open>
  The wrapper. \<open>t_get\<close> and \<open>t_set\<close> are the clock readings during \<open>cache.get\<close> and
  \<open>cache.set\<close>. The state is the cache together with the computation's own state.
\<close>

definition wrapper ::
  "pylib \<Rightarrow> orjson \<Rightarrow> cached_opts \<Rightarrow> 'w func \<Rightarrow> pyval list \<Rightarrow> (string \<times> pyval) list \<Rightarrow>
   real \<Rightarrow> real \<Rightarrow> cache \<times> 'w \<Rightarrow> (exn + pyval) \<times> cache \<times> 'w" where
  "wrapper lib oj opts f args kwargs t_get t_set st =
     (let key = wrapper_key lib opts (fname f) args kwargs;
          (got, c1) = cache_get oj (fst st) key t_get
      in (case got of
            Inl e \<Rightarrow> (Inl e, c1, snd st)
          | Inr value \<Rightarrow>
              if value = PNone then
                (let (res, w') = body f args kwargs (snd st)
                 in (case res of
                       Inl e \<Rightarrow> (Inl e, c1, w')
                     | Inr v \<Rightarrow>
                         (let (put, c2) = cache_set oj c1 key v (opt_ttl opts) t_set
                          in (case put of
                                Inl e \<Rightarrow> (Inl e, c2, w')
                              | Inr _ \<Rightarrow> (Inr v, c2, w')))))
              else (Inr value, c1, snd st)))"

text \<open>
  A computation with an internal call counter: the state is paired with the number of
  times the body has run.
\<close>

definition counting :: "'w func \<Rightarrow> ('w \<times> nat) func" where
  "counting f =
     \<lparr>fname = fname f,
      body = (\<lambda>args kwargs (w, n).
                let (res, w') = body f args kwargs w in (res, (w', Suc n)))\<rparr>"

section \<open>middlewares.py: SessionMiddleware\<close>

text \<open>Python's \<open>str\<close> of an integer, for \<open>f"Max-Age={self.max_age}; "\<close>.\<close>

fun str_nat :: "nat \<Rightarrow> string" where
  "str_nat n =
     (if n < 10 then [''0123456789'' ! n]
      else str_nat (n div 10) @ [''0123456789'' ! (n mod 10)])"

declare str_nat.simps [simp del]

definition str_int :: "int \<Rightarrow> string" where
  "str_int i = (if i < 0 then ''-'' @ str_nat (nat (- i)) else str_nat (nat i))"

text \<open>
  The fields \<open>__init__\<close> sets. \<open>self.cache\<close> is \<open>RedisCache(redis, prefix=session_cookie)\<close>:
  its prefix is the cookie name, its client is the \<open>redis\<close> state threaded through the
  functions below.
\<close>

record SessionMiddleware =
  mw_session_cookie :: string
  mw_max_age :: "int option"
  mw_path :: string
  mw_security_flags :: string

definition SessionMiddleware_init ::
  "string \<Rightarrow> int option \<Rightarrow> string \<Rightarrow> string \<Rightarrow> bool \<Rightarrow> string option \<Rightarrow> SessionMiddleware" where
  "SessionMiddleware_init session_cookie max_age path same_site https_only domain =
     \<lparr>mw_session_cookie = session_cookie,
      mw_max_age = max_age,
      mw_path = path,
      mw_security_flags =
        (''httponly; samesite='' @ same_site)
        @ (if https_only then ''; secure'' else [])
        @ (case domain of None \<Rightarrow> [] | Some d \<Rightarrow> ''; domain='' @ d)\<rparr>"

definition mw_prefix :: "SessionMiddleware \<Rightarrow> string option" where
  "mw_prefix mw = Some (mw_session_cookie mw)"

text \<open>
  An ASGI scope, as far as the middleware reads and writes it: the connection type, the
  cookies of the request (as Starlette's \<open>HTTPConnection.cookies\<close> parses them) and the
  entry \<open>scope["session"]\<close>, absent until the middleware sets it. An ASGI message: its
  type, its header list and the rest of it, which the middleware never looks at.
\<close>

record scope =
  stype :: string
  cookies :: "string \<rightharpoonup> string"
  session :: "pyval option"

record message =
  mtype :: string
  headers :: "(string \<times> string) list"
  rest :: string

text \<open>The two header values \<open>send_wrapper\<close> formats.\<close>

definition persist_header :: "SessionMiddleware \<Rightarrow> string \<Rightarrow> string" where
  "persist_header mw token =
     mw_session_cookie mw @ ''='' @ token @ ''; path='' @ mw_path mw @ ''; ''
     @ (if truthy_int (mw_max_age mw) then ''Max-Age='' @ str_int (the (mw_max_age mw)) @ ''; '' else [])
     @ mw_security_flags mw"

definition clear_header :: "SessionMiddleware \<Rightarrow> string" where
  "clear_header mw =
     mw_session_cookie mw @ ''='' @ ''null'' @ ''; path='' @ mw_path mw @ ''; ''
     @ ''expires=Thu, 01 Jan 1970 00:00:00 GMT; ''
     @ mw_security_flags mw"

text \<open>\<open>MutableHeaders(scope=message).append("Set-Cookie", v)\<close> adds one entry at the end.\<close>

definition append_set_cookie :: "message \<Rightarrow> string \<Rightarrow> message" where
  "append_set_cookie m v = m\<lparr>headers := headers m @ [(''set-cookie'', v)]\<rparr>"

text \<open>
  The first part of \<open>__call__\<close>, up to the definition of \<open>send_wrapper\<close>: it yields the
  cookie's \<open>value\<close> (or \<open>None\<close>), \<open>initial_session_was_empty\<close> and the session placed in
  the scope. \<open>now\<close> is the server's clock at the lookup.
\<close>

definition hydrate ::
  "orjson \<Rightarrow> SessionMiddleware \<Rightarrow> scope \<Rightarrow> redis \<Rightarrow> real \<Rightarrow>
   (exn + (string option \<times> bool \<times> pyval)) \<times> redis" where
  "hydrate oj mw sc r now =
     (case cookies sc (mw_session_cookie mw) of
        Some v \<Rightarrow>
          (let (res, r') = RedisCache_get oj (mw_prefix mw) r v now
           in (case res of
                 Inl e \<Rightarrow> (Inl e, r')
               | Inr data \<Rightarrow>
                   if truthy data then (Inr (Some v, False, data), r')
                   else (Inr (Some v, True, PDict []), r')))
      | None \<Rightarrow> (Inr (None, True, PDict []), r))"

text \<open>\<open>token = value or secrets.token_urlsafe(32)\<close>, with the library's random token given.\<close>

definition choose_token :: "string option \<Rightarrow> string \<Rightarrow> string" where
  "choose_token v token_urlsafe =
     (case v of
        None \<Rightarrow> token_urlsafe
      | Some t \<Rightarrow> if t \<noteq> [] then t else token_urlsafe)"

text \<open>
  \<open>send_wrapper\<close>, closed over \<open>value\<close> and \<open>initial_session_was_empty\<close>; \<open>sess\<close> is
  \<open>scope["session"]\<close> at the time of the call. It returns the message handed on to
  \<open>send\<close>, or the exception that leaves it. \<open>self.cache.delete(None)\<close> returns at once
  (\<open>not key\<close>). \<open>now\<close> is the server's clock at the store command.
\<close>

definition send_wrapper ::
  "orjson \<Rightarrow> SessionMiddleware \<Rightarrow> string option \<Rightarrow> bool \<Rightarrow> string \<Rightarrow> pyval \<Rightarrow> redis \<Rightarrow>
   real \<Rightarrow> message \<Rightarrow> (exn + message) \<times> redis" where
  "send_wrapper oj mw v initial_session_was_empty token_urlsafe sess r now m =
     (if mtype m = ''http.response.start'' then
        (if truthy sess then
           (let token = choose_token v token_urlsafe;
                (res, r') = RedisCache_set oj (mw_prefix mw) r token sess (mw_max_age mw) now
            in (case res of
                  Inl e \<Rightarrow> (Inl e, r')
                | Inr _ \<Rightarrow> (Inr (append_set_cookie m (persist_header mw token)), r')))
         else if \<not> initial_session_was_empty then
           (let (res, r') =
                  (case v of
                     None \<Rightarrow> (Inr (), r)
                   | Some t \<Rightarrow> RedisCache_delete (mw_prefix mw) r t)
            in (case res of
                  Inl e \<Rightarrow> (Inl e, r')
                | Inr _ \<Rightarrow> (Inr (append_set_cookie m (clear_header mw)), r')))
         else (Inr m, r))
      else (Inr m, r))"

text \<open>
  The wrapped application is opaque to the middleware. What matters of a run is the
  sequence in which it assigns \<open>scope["session"]\<close> and calls \<open>send\<close>; it is a function of
  the scope it is given.
\<close>

datatype action = SetSession pyval | Send message

type_synonym asgi_app = "scope \<Rightarrow> action list"

text \<open>What a call of the middleware leaves behind.\<close>

record outcome =
  sent :: "message list"
  backend :: redis
  final_session :: "pyval option"
  raised :: "exn option"

text \<open>The application running against the real \<open>send\<close>.\<close>

fun run_plain :: "action list \<Rightarrow> pyval option \<Rightarrow> message list \<Rightarrow> pyval option \<times> message list" where
  "run_plain [] sess out = (sess, out)"
| "run_plain (SetSession v # acts) sess out = run_plain acts (Some v) out"
| "run_plain (Send m # acts) sess out = run_plain acts sess (out @ [m])"

text \<open>
  The application running against \<open>send_wrapper\<close>. \<open>fresh i\<close> is what
  \<open>secrets.token_urlsafe(32)\<close> returns when asked while \<open>i\<close> messages have been sent, and
  \<open>clock (Suc i)\<close> is the server's clock at that \<open>send\<close>. An exception in \<open>send_wrapper\<close>
  ends the run.
\<close>

fun run_wrapped ::
  "orjson \<Rightarrow> SessionMiddleware \<Rightarrow> string option \<Rightarrow> bool \<Rightarrow> (nat \<Rightarrow> string) \<Rightarrow> (nat \<Rightarrow> real) \<Rightarrow>
   action list \<Rightarrow> pyval \<Rightarrow> redis \<Rightarrow> message list \<Rightarrow> outcome" where
  "run_wrapped oj mw v ie fresh clock [] sess r out =
     \<lparr>sent = out, backend = r, final_session = Some sess, raised = None\<rparr>"
| "run_wrapped oj mw v ie fresh clock (SetSession s # acts) sess r out =
     run_wrapped oj mw v ie fresh clock acts s r out"
| "run_wrapped oj mw v ie fresh clock (Send m # acts) sess r out =
     (case send_wrapper oj mw v ie (fresh (length out)) sess r (clock (Suc (length out))) m of
        (Inl e, r') \<Rightarrow> \<lparr>sent = out, backend = r', final_session = Some sess, raised = Some e\<rparr>
      | (Inr m', r') \<Rightarrow> run_wrapped oj mw v ie fresh clock acts sess r' (out @ [m']))"

text \<open>\<open>__call__\<close>; \<open>clock 0\<close> is the server's clock at the lookup of the cookie's token.\<close>

definition SessionMiddleware_call ::
  "orjson \<Rightarrow> SessionMiddleware \<Rightarrow> (nat \<Rightarrow> string) \<Rightarrow> (nat \<Rightarrow> real) \<Rightarrow> asgi_app \<Rightarrow> scope \<Rightarrow> redis \<Rightarrow>
   outcome" where
  "SessionMiddleware_call oj mw fresh clock app sc r =
     (if stype sc \<noteq> ''http'' \<and> stype sc \<noteq> ''websocket'' then
        (let (sess, out) = run_plain (app sc) (session sc) []
         in \<lparr>sent = out, backend = r, final_session = sess, raised = None\<rparr>)
      else
        (case hydrate oj mw sc r (clock 0) of
           (Inl e, r') \<Rightarrow> \<lparr>sent = [], backend = r', final_session = session sc, raised = Some e\<rparr>
         | (Inr (v, ie, data), r') \<Rightarrow>
             run_wrapped oj mw v ie fresh clock (app (sc\<lparr>session := Some data\<rparr>)) data r' []))"

text \<open>
  A serializer for the examples: \<open>orjson\<close>'s compact output on the few values the examples
  store, and its parser on those payloads; every other payload is rejected the way
  \<open>orjson.loads\<close> rejects text that is not JSON.
\<close>

definition sample_orjson :: orjson where
  "sample_orjson =
     \<lparr>dumps = (\<lambda>v. if v = PInt 0 then ''0''
                   else if v = PInt 42 then ''42''
                   else if v = PDict [(''user_id'', PInt 42)] then ''{\"user_id\":42}''
                   else ''null''),
      loads = (\<lambda>s. if s = ''0'' then Inr (PInt 0)
                   else if s = ''42'' then Inr (PInt 42)
                   else if s = ''{\"user_id\":42}'' then Inr (PDict [(''user_id'', PInt 42)])
                   else if s = ''null'' then Inr PNone
                   else Inl JSONDecodeError)\<rparr>"

text \<open>
  Library functions for the examples: Python's rendering of the argument tuples the
  examples use (one integer, or one object, rendered by its \<open>__repr__\<close>) and of the empty
  keyword dict; the digest is replaced by the identity, which like MD5 on these inputs
  keeps different texts apart and, like any function, maps equal texts to equal digests.
\<close>

definition sample_pylib :: pylib where
  "sample_pylib =
     \<lparr>md5_hexdigest = (\<lambda>s. s),
      repr_tuple = (\<lambda>args. case args of
                            [PInt i] \<Rightarrow> (if i = 1 then ''(1,)'' else if i = 2 then ''(2,)'' else ''()'')
                          | [PObj i s] \<Rightarrow> ''('' @ s @ '',)''
                          | _ \<Rightarrow> ''()''),
      repr_dict = (\<lambda>kw. ''{}'')\<rparr>"

definition empty_redis :: redis where
  "empty_redis = \<lparr>fault = None, kv = Map.empty, issued = []\<rparr>"

definition default_mw :: SessionMiddleware where
  "default_mw = SessionMiddleware_init ''session'' (Some 1209600) ''/'' ''lax'' False None"

text \<open>Computations and decorator options for the examples.\<close>

definition flaky :: "nat func" where
  "flaky = \<lparr>fname = ''flaky'',
            body = (\<lambda>args kwargs attempts.
                      if attempts = 0 then (Inl (Raised ''boom''), Suc attempts)
                      else (Inr (PInt 42), Suc attempts))\<rparr>"

definition plain_opts :: cached_opts where
  "plain_opts = \<lparr>opt_cache_key = None, opt_ttl = None, opt_namespace = None, opt_key_builder = None\<rparr>"

definition zero_func :: "unit func" where
  "zero_func = \<lparr>fname = ''zero'', body = (\<lambda>args kwargs w. (Inr (PInt 0), w))\<rparr>"

definition answer_func :: "unit func" where
  "answer_func = \<lparr>fname = ''answer'', body = (\<lambda>args kwargs w. (Inr (PInt 42), w))\<rparr>"

definition fixed_key_opts :: cached_opts where
  "fixed_key_opts = \<lparr>opt_cache_key = Some ''k'', opt_ttl = None, opt_namespace = None, opt_key_builder = None\<rparr>"

text \<open>Requests, stored sessions and applications for the examples.\<close>

definition start_message :: message where
  "start_message = \<lparr>mtype = ''http.response.start'', headers = [], rest = []\<rparr>"

definition user_session :: pyval where
  "user_session = PDict [(''user_id'', PInt 42)]"

definition scope_of :: "string \<Rightarrow> (string \<rightharpoonup> string) \<Rightarrow> scope" where
  "scope_of ty cs = \<lparr>stype = ty, cookies = cs, session = None\<rparr>"

definition redis_with_session :: redis where
  "redis_with_session =
     \<lparr>fault = None, kv = [''session:abc'' \<mapsto> (''{\"user_id\":42}'', None)], issued = []\<rparr>"

definition login_app :: asgi_app where
  "login_app sc = [SetSession user_session, Send start_message]"

definition echo_app :: asgi_app where
  "echo_app sc =
     [Send \<lparr>mtype = ''websocket.accept'', headers = [],
            rest = (if session sc = Some user_session then ''user 42'' else ''anonymous'')\<rparr>]"


definition day_opts :: cached_opts where
  "day_opts = \<lparr>opt_cache_key = None, opt_ttl = Some 86400, opt_namespace = Some ''sso'',
               opt_key_builder = None\<rparr>"

definition zero_ttl_opts :: cached_opts where
  "zero_ttl_opts = \<lparr>opt_cache_key = Some ''k'', opt_ttl = Some 0, opt_namespace = None,
                    opt_key_builder = None\<rparr>"

text \<open>Two instances of a class whose \<open>__repr__\<close> returns the same text for every instance.\<close>

definition obj_one :: pyval where
  "obj_one = PObj 1 ''A()''"

definition obj_two :: pyval where
  "obj_two = PObj 2 ''A()''"

section \<open>Properties of the cache backends\<close>

text \<open>
  Claim C2. For the in-memory cache and every \<open>ttl > 0\<close>: a \<open>set(key, value, ttl)\<close> at
  time \<open>now\<close> followed by a \<open>get(key)\<close> before the expiry instant \<open>now + ttl\<close> returns
  \<open>value\<close> (and leaves the store as it is); a \<open>get(key)\<close> at or past the expiry instant
  returns absent and removes the entry from the store.
\<close>

theorem InMemoryCache_ttl_correct:
  assumes "ttl > 0"
  shows "(t < now + real_of_int ttl \<longrightarrow>
           InMemoryCache_get (InMemoryCache_set store key v (Some ttl) now) key t
             = (v, InMemoryCache_set store key v (Some ttl) now))
       \<and> (t \<ge> now + real_of_int ttl \<longrightarrow>
           fst (InMemoryCache_get (InMemoryCache_set store key v (Some ttl) now) key t) = PNone
           \<and> snd (InMemoryCache_get (InMemoryCache_set store key v (Some ttl) now) key t) key = None)"
  using assms by (simp add: InMemoryCache_get_def InMemoryCache_set_def)

theorem InMemoryCache_ttl_correct_witness:
  "InMemoryCache_get (InMemoryCache_set Map.empty ''k'' (PInt 7) (Some 60) 1000) ''k'' 1000
     = (PInt 7, InMemoryCache_set Map.empty ''k'' (PInt 7) (Some 60) 1000)
   \<and> fst (InMemoryCache_get (InMemoryCache_set Map.empty ''k'' (PInt 7) (Some 60) 1000) ''k'' 1060) = PNone
   \<and> snd (InMemoryCache_get (InMemoryCache_set Map.empty ''k'' (PInt 7) (Some 60) 1000) ''k'' 1060) ''k'' = None"
  using InMemoryCache_ttl_correct [of 60 1000 1000 Map.empty "''k''" "PInt 7"]
        InMemoryCache_ttl_correct [of 60 1060 1000 Map.empty "''k''" "PInt 7"]
  by simp

text \<open>What the methods of \<open>RedisCache\<close> return and leave, without the intermediate bindings.\<close>

lemma RedisCache_get_result:
  "fst (RedisCache_get oj prefix r key now) =
     (if key = [] then Inr PNone
      else except_ConnectionError PNone
        (case fault r of
           Some e \<Rightarrow> Inl e
         | None \<Rightarrow>
            (case unexpired now (kv r (prefixed prefix key)) of
               None \<Rightarrow> Inr PNone
             | Some entry \<Rightarrow> if fst entry \<noteq> [] then loads oj (fst entry) else Inr PNone)))"
  by (simp add: RedisCache_get_def client_get_def ORJSONSerializer_decode_def Let_def
           split: option.splits)

lemma RedisCache_get_state:
  "snd (RedisCache_get oj prefix r key now) =
     (if key = [] then r
      else (case fault r of
              Some e \<Rightarrow> r\<lparr>issued := issued r @ [GET (prefixed prefix key)]\<rparr>
            | None \<Rightarrow>
                r\<lparr>kv := (kv r)(prefixed prefix key := unexpired now (kv r (prefixed prefix key))),
                  issued := issued r @ [GET (prefixed prefix key)]\<rparr>))"
  by (simp add: RedisCache_get_def client_get_def Let_def split: option.splits)

lemma RedisCache_set_result:
  "fst (RedisCache_set oj prefix r key v ttl now) =
     (if key = [] \<or> \<not> truthy v then Inr ()
      else (case fault r of
              Some e \<Rightarrow> if e = ConnectionError then Inr () else Inl e
            | None \<Rightarrow> if ex_accepted ttl then Inr () else Inl ResponseError))"
  by (simp add: RedisCache_set_def client_set_def except_ConnectionError_def Let_def
           split: option.splits)

lemma RedisCache_set_state:
  "snd (RedisCache_set oj prefix r key v ttl now) =
     (if key = [] \<or> \<not> truthy v then r
      else if fault r = None \<and> ex_accepted ttl
      then r\<lparr>kv := (kv r)(prefixed prefix key \<mapsto>
                        (dumps oj v, map_option (\<lambda>n. now + real_of_int n) ttl)),
              issued := issued r @ [SET (prefixed prefix key) (dumps oj v) ttl]\<rparr>
      else r\<lparr>issued := issued r @ [SET (prefixed prefix key) (dumps oj v) ttl]\<rparr>)"
  by (simp add: RedisCache_set_def client_set_def ORJSONSerializer_encode_def Let_def
           split: option.splits)

lemma RedisCache_delete_result:
  "fst (RedisCache_delete prefix r key) =
     (if key = [] then Inr ()
      else (case fault r of
              Some e \<Rightarrow> if e = ConnectionError then Inr () else Inl e
            | None \<Rightarrow> Inr ()))"
  by (simp add: RedisCache_delete_def client_delete_def except_ConnectionError_def Let_def
           split: option.splits)


lemma unexpired_None [simp]: "unexpired now None = None"
  by (simp add: unexpired_def)

lemma unexpired_forever [simp]: "unexpired now (Some (p, None)) = Some (p, None)"
  by (simp add: unexpired_def)

lemma unexpired_until [simp]:
  "unexpired now (Some (p, Some e)) = (if now < e then Some (p, Some e) else None)"
  by (simp add: unexpired_def)

lemma unexpired_cases: "unexpired now entry = None \<or> unexpired now entry = entry"
  by (cases entry) (auto simp add: unexpired_def split: option.splits)

text \<open>
  Claim C10. For the remote backend, every operation called with the empty string as key
  returns at once, whatever the prefix: \<open>get\<close> returns absent, \<open>set\<close> and \<open>delete\<close>
  return, and the client's state, with the list of commands issued to it, is unchanged.
\<close>

theorem RedisCache_empty_key_noop:
  "RedisCache_get oj prefix r [] now = (Inr PNone, r)
   \<and> RedisCache_set oj prefix r [] v ttl now = (Inr (), r)
   \<and> RedisCache_delete prefix r [] = (Inr (), r)"
  by (simp add: RedisCache_get_def RedisCache_set_def RedisCache_delete_def)

theorem RedisCache_empty_key_noop_witness:
  "RedisCache_get sample_orjson (Some ''app'') empty_redis [] 0 = (Inr PNone, empty_redis)
   \<and> RedisCache_set sample_orjson (Some ''app'') empty_redis [] (PInt 42) (Some 60) 0 = (Inr (), empty_redis)
   \<and> RedisCache_delete (Some ''app'') empty_redis [] = (Inr (), empty_redis)"
  using RedisCache_empty_key_noop [of sample_orjson "Some ''app''" empty_redis 0 "PInt 42" "Some 60"]
  by simp

text \<open>
  Claim C6. \<open>delete(key)\<close> is to be a no-op, raising nothing, when the key has no entry.
  \<open>RedisCache.delete\<close> is; \<open>InMemoryCache.delete\<close> on a store without the key raises
  \<open>KeyError\<close>.
\<close>

theorem InMemoryCache_delete_missing_raises:
  "InMemoryCache_delete Map.empty ''missing'' = Inl (KeyError ''missing'')
   \<and> fst (RedisCache_delete None empty_redis ''missing'') = Inr ()"
  by (simp add: InMemoryCache_delete_def RedisCache_delete_result empty_redis_def)

text \<open>
  Claim C5. \<open>RedisCache.get\<close> is to treat an undecodable payload as a miss. The \<open>try\<close>
  block holds the decode step, but only \<open>ConnectionError\<close> is caught: on the stored
  payload \<open>{\<close> the decode error leaves \<open>get\<close>.
\<close>

theorem RedisCache_get_malformed_raises:
  "fst (RedisCache_get sample_orjson None
          \<lparr>fault = None, kv = [''k'' \<mapsto> (''{'', None)], issued = []\<rparr> ''k'' 0)
     = Inl JSONDecodeError"
  by (simp add: RedisCache_get_result prefixed_def except_ConnectionError_def
        sample_orjson_def)

text \<open>
  Claim C3, as stated, fails for the in-memory backend: \<open>set\<close> stores the empty string,
  0 and the empty list like any other value, and \<open>get\<close> returns them, not absent.
\<close>

theorem falsy_value_counterexample:
  "fst (InMemoryCache_get (InMemoryCache_set Map.empty ''k'' (PStr []) None 0) ''k'' 0) = PStr []
   \<and> fst (InMemoryCache_get (InMemoryCache_set Map.empty ''k'' (PInt 0) None 0) ''k'' 0) = PInt 0
   \<and> fst (InMemoryCache_get (InMemoryCache_set Map.empty ''k'' (PList []) None 0) ''k'' 0) = PList []
   \<and> PStr [] \<noteq> PNone \<and> PInt 0 \<noteq> PNone \<and> PList [] \<noteq> PNone"
  by (simp add: InMemoryCache_get_def InMemoryCache_set_def)

text \<open>
  Claim C3, amended. For the remote backend and every falsy value, \<open>set(key, value)\<close>
  returns at once: no command is issued and the store is as before. So a key for which
  \<open>get\<close> returned absent before the \<open>set\<close> is still absent right after it.
\<close>

theorem RedisCache_set_falsy_noop:
  assumes "\<not> truthy v"
  shows "RedisCache_set oj prefix r key v ttl now = (Inr (), r)
         \<and> (fst (RedisCache_get oj prefix r key now) = Inr PNone \<longrightarrow>
              fst (RedisCache_get oj prefix (snd (RedisCache_set oj prefix r key v ttl now)) key now)
                = Inr PNone)"
  using assms by (simp add: RedisCache_set_def)

theorem RedisCache_set_falsy_noop_witness:
  "RedisCache_set sample_orjson (Some ''app'') empty_redis ''k'' (PInt 0) None 0 = (Inr (), empty_redis)
   \<and> fst (RedisCache_get sample_orjson (Some ''app'')
            (snd (RedisCache_set sample_orjson (Some ''app'') empty_redis ''k'' (PInt 0) None 0)) ''k'' 0)
       = Inr PNone"
proof -
  have f: "\<not> truthy (PInt 0)" by simp
  have g: "fst (RedisCache_get sample_orjson (Some ''app'') empty_redis ''k'' 0) = Inr PNone"
    by (simp add: RedisCache_get_result empty_redis_def except_ConnectionError_def)
  show ?thesis
    using RedisCache_set_falsy_noop [OF f, of sample_orjson "Some ''app''" empty_redis "''k''" None 0] g
    by simp
qed

section \<open>Properties of the decorator\<close>

lemma InMemoryCache_get_miss_again:
  assumes "fst (InMemoryCache_get store key t1) = PNone"
  shows "fst (InMemoryCache_get (snd (InMemoryCache_get store key t1)) key t2) = PNone"
  using assms
  by (auto simp add: InMemoryCache_get_def split: option.splits if_splits)

lemma RedisCache_get_miss_again:
  assumes "fst (RedisCache_get oj prefix r key t1) = Inr PNone"
  shows "fst (RedisCache_get oj prefix (snd (RedisCache_get oj prefix r key t1)) key t2) = Inr PNone"
proof (cases "key = []")
  case True
  then show ?thesis by (simp add: RedisCache_get_result)
next
  case False
  show ?thesis
  proof (cases "fault r")
    case (Some e)
    with assms False show ?thesis
      by (simp add: RedisCache_get_result RedisCache_get_state)
  next
    case None
    from unexpired_cases [of t1 "kv r (prefixed prefix key)"] show ?thesis
    proof
      assume "unexpired t1 (kv r (prefixed prefix key)) = None"
      with None False show ?thesis
        by (simp add: RedisCache_get_result RedisCache_get_state except_ConnectionError_def)
    next
      assume same: "unexpired t1 (kv r (prefixed prefix key)) = kv r (prefixed prefix key)"
      from unexpired_cases [of t2 "kv r (prefixed prefix key)"] show ?thesis
      proof
        assume "unexpired t2 (kv r (prefixed prefix key)) = None"
        with None False same show ?thesis
          by (simp add: RedisCache_get_result RedisCache_get_state except_ConnectionError_def)
      next
        assume "unexpired t2 (kv r (prefixed prefix key)) = kv r (prefixed prefix key)"
        with None False same assms show ?thesis
          by (simp add: RedisCache_get_result RedisCache_get_state)
      qed
    qed
  qed
qed

lemma cache_get_miss_again:
  assumes "fst (cache_get oj c key t1) = Inr PNone"
  shows "fst (cache_get oj (snd (cache_get oj c key t1)) key t2) = Inr PNone"
proof (cases c)
  case (InMemory store)
  with assms have "fst (InMemoryCache_get store key t1) = PNone"
    by (simp add: case_prod_unfold Let_def)
  from InMemoryCache_get_miss_again [OF this, of t2] InMemory show ?thesis
    by (simp add: case_prod_unfold Let_def)
next
  case (Redis prefix r)
  with assms have "fst (RedisCache_get oj prefix r key t1) = Inr PNone"
    by (simp add: case_prod_unfold Let_def)
  from RedisCache_get_miss_again [OF this, of t2] Redis show ?thesis
    by (simp add: case_prod_unfold Let_def)
qed

lemma counting_simps:
  "fname (counting f) = fname f"
  "body (counting f) args kwargs (w, n) =
     (fst (body f args kwargs w), (snd (body f args kwargs w), Suc n))"
  by (simp_all add: counting_def case_prod_unfold Let_def)

lemma wrapper_miss_raise:
  assumes "fst (cache_get oj c (wrapper_key lib opts (fname f) args kwargs) t_get) = Inr PNone"
      and "fst (body f args kwargs w) = Inl e"
  shows "wrapper lib oj opts f args kwargs t_get t_set (c, w)
           = (Inl e, snd (cache_get oj c (wrapper_key lib opts (fname f) args kwargs) t_get),
              snd (body f args kwargs w))"
  using assms by (simp add: wrapper_def Let_def case_prod_unfold)

lemma wrapper_miss_return:
  assumes "fst (cache_get oj c (wrapper_key lib opts (fname f) args kwargs) t_get) = Inr PNone"
      and "fst (body f args kwargs w) = Inr v"
  shows "wrapper lib oj opts f args kwargs t_get t_set (c, w)
           = (case fst (cache_set oj (snd (cache_get oj c (wrapper_key lib opts (fname f) args kwargs) t_get))
                       (wrapper_key lib opts (fname f) args kwargs) v (opt_ttl opts) t_set) of
                Inl e \<Rightarrow> Inl e | Inr _ \<Rightarrow> Inr v,
              snd (cache_set oj (snd (cache_get oj c (wrapper_key lib opts (fname f) args kwargs) t_get))
                       (wrapper_key lib opts (fname f) args kwargs) v (opt_ttl opts) t_set),
              snd (body f args kwargs w))"
  using assms by (simp add: wrapper_def Let_def case_prod_unfold split: sum.splits)

lemma wrapper_hit:
  assumes "fst (cache_get oj c (wrapper_key lib opts (fname f) args kwargs) t_get) = Inr v"
      and "v \<noteq> PNone"
  shows "wrapper lib oj opts f args kwargs t_get t_set (c, w)
           = (Inr v, snd (cache_get oj c (wrapper_key lib opts (fname f) args kwargs) t_get), w)"
  using assms by (simp add: wrapper_def Let_def case_prod_unfold)

lemma cache_get_fault:
  "(case snd (cache_get oj c key t) of InMemory s \<Rightarrow> None | Redis p r \<Rightarrow> fault r)
     = (case c of InMemory s \<Rightarrow> None | Redis p r \<Rightarrow> fault r)"
  by (cases c) (simp_all add: case_prod_unfold Let_def RedisCache_get_state split: option.splits)

lemma cache_get_same_backend:
  "(case snd (cache_get oj c key t) of InMemory s \<Rightarrow> True | Redis p r \<Rightarrow> P)
     = (case c of InMemory s \<Rightarrow> True | Redis p r \<Rightarrow> P)"
  by (cases c) (simp_all add: case_prod_unfold Let_def)

text \<open>
  After a lookup that returned \<open>None\<close>, \<open>cache.set\<close> raises only when the server rejects
  the TTL: a connection that raises anything but \<open>ConnectionError\<close> would have made the
  lookup raise.
\<close>

lemma cache_set_ok_after_miss:
  assumes "fst (cache_get oj c key t) = Inr PNone"
      and "case c of InMemory s \<Rightarrow> True | Redis p r \<Rightarrow> ex_accepted ttl"
  shows "fst (cache_set oj (snd (cache_get oj c key t)) key v ttl t') = Inr ()"
proof (cases c)
  case (InMemory store)
  then show ?thesis by (simp add: case_prod_unfold Let_def)
next
  case (Redis prefix r)
  show ?thesis
  proof (cases "fault r")
    case None
    with Redis assms show ?thesis
      by (simp add: case_prod_unfold Let_def RedisCache_set_result RedisCache_get_state)
  next
    case (Some e)
    with Redis assms show ?thesis
      by (auto simp add: case_prod_unfold Let_def RedisCache_set_result RedisCache_get_state
            RedisCache_get_result except_ConnectionError_def split: if_splits)
  qed
qed

text \<open>
  Claim C4. When the wrapper's lookup misses and the computation it then invokes raises,
  the wrapper raises the same error, the computation has run once, and the cache is left
  exactly as the lookup left it: \<open>cache.set\<close> is not reached. A second call with the same
  arguments misses again and runs the computation a second time; if that run returns a
  value, the wrapper returns it (on the remote backend, when the TTL is one the server
  accepts: none, or a positive one).
\<close>

theorem cached_error_not_cached:
  assumes miss: "fst (cache_get oj c (wrapper_key lib opts (fname f) args kwargs) t1) = Inr PNone"
      and fails: "body f args kwargs w = (Inl e, w1)"
  shows "wrapper lib oj opts (counting f) args kwargs t1 t2 (c, (w, n))
           = (Inl e, snd (cache_get oj c (wrapper_key lib opts (fname f) args kwargs) t1), (w1, Suc n))
         \<and> (body f args kwargs w1 = (Inr v, w2) \<longrightarrow>
              snd (snd (wrapper lib oj opts (counting f) args kwargs t3 t4
                    (snd (wrapper lib oj opts (counting f) args kwargs t1 t2 (c, (w, n))))))
                  = (w2, Suc (Suc n))
              \<and> ((case c of InMemory s \<Rightarrow> True | Redis p r \<Rightarrow> ex_accepted (opt_ttl opts)) \<longrightarrow>
                   fst (wrapper lib oj opts (counting f) args kwargs t3 t4
                         (snd (wrapper lib oj opts (counting f) args kwargs t1 t2 (c, (w, n)))))
                     = Inr v))"
proof -
  let ?key = "wrapper_key lib opts (fname f) args kwargs"
  let ?c1 = "snd (cache_get oj c ?key t1)"
  let ?c2 = "snd (cache_get oj ?c1 ?key t3)"
  have first: "wrapper lib oj opts (counting f) args kwargs t1 t2 (c, (w, n))
                 = (Inl e, ?c1, (w1, Suc n))"
    using wrapper_miss_raise [of oj c lib opts "counting f" args kwargs t1 "(w, n)" e t2]
          miss fails
    by (simp add: counting_simps)
  have again: "fst (cache_get oj ?c1 ?key t3) = Inr PNone"
    using cache_get_miss_again [OF miss] .
  have second: "wrapper lib oj opts (counting f) args kwargs t3 t4 (?c1, (w1, Suc n))
        = (case fst (cache_set oj ?c2 ?key v (opt_ttl opts) t4) of
             Inl e' \<Rightarrow> Inl e' | Inr u \<Rightarrow> Inr v,
           snd (cache_set oj ?c2 ?key v (opt_ttl opts) t4),
           (w2, Suc (Suc n)))"
    if "body f args kwargs w1 = (Inr v, w2)"
    using wrapper_miss_return [of oj ?c1 lib opts "counting f" args kwargs t3 "(w1, Suc n)" v t4]
          again that
    by (simp add: counting_simps)
  have accepted: "fst (cache_set oj ?c2 ?key v (opt_ttl opts) t4) = Inr ()"
    if "case c of InMemory s \<Rightarrow> True | Redis p r \<Rightarrow> ex_accepted (opt_ttl opts)"
    using cache_set_ok_after_miss [OF again, of "opt_ttl opts" v t4] that
    by (simp add: cache_get_same_backend)
  show ?thesis using first second accepted by simp
qed

theorem cached_error_not_cached_witness:
  "wrapper sample_pylib sample_orjson plain_opts (counting flaky) [PInt 1] [] 0 0
      (InMemory Map.empty, (0, 0))
     = (Inl (Raised ''boom''), InMemory Map.empty, (1, 1))
   \<and> snd (snd (wrapper sample_pylib sample_orjson plain_opts (counting flaky) [PInt 1] [] 0 0
            (snd (wrapper sample_pylib sample_orjson plain_opts (counting flaky) [PInt 1] [] 0 0
                   (InMemory Map.empty, (0, 0)))))) = (2, 2)
   \<and> fst (wrapper sample_pylib sample_orjson plain_opts (counting flaky) [PInt 1] [] 0 0
            (snd (wrapper sample_pylib sample_orjson plain_opts (counting flaky) [PInt 1] [] 0 0
                   (InMemory Map.empty, (0, 0))))) = Inr (PInt 42)"
proof -
  have miss: "fst (cache_get sample_orjson (InMemory Map.empty)
                    (wrapper_key sample_pylib plain_opts (fname flaky) [PInt 1] []) 0) = Inr PNone"
    by (simp add: InMemoryCache_get_def)
  have fails: "body flaky [PInt 1] [] 0 = (Inl (Raised ''boom''), 1)"
    by (simp add: flaky_def)
  have ok: "body flaky [PInt 1] [] 1 = (Inr (PInt 42), 2)"
    by (simp add: flaky_def)
  have st: "snd (cache_get sample_orjson (InMemory Map.empty)
                    (wrapper_key sample_pylib plain_opts (fname flaky) [PInt 1] []) 0) = InMemory Map.empty"
    by (simp add: InMemoryCache_get_def)
  note th = cached_error_not_cached [OF miss fails, of 0 0 "PInt 42" 2 0 0]
  have a: "wrapper sample_pylib sample_orjson plain_opts (counting flaky) [PInt 1] [] 0 0
      (InMemory Map.empty, (0, 0))
     = (Inl (Raised ''boom''), InMemory Map.empty, (1, 1))"
    using conjunct1 [OF th] st by simp
  show ?thesis
    using a conjunct2 [OF th] ok by simp
qed

lemma prefixed_inject: "prefixed prefix k = prefixed prefix k' \<longleftrightarrow> k = k'"
  by (simp add: prefixed_def split: option.splits)

lemma cache_get_after_set:
  assumes "case c of
             InMemory store \<Rightarrow> v \<noteq> PNone \<and> (truthy_int ttl \<longrightarrow> tc < tb + real_of_int (the ttl))
           | Redis prefix r \<Rightarrow> fault r = None \<and> key \<noteq> [] \<and> truthy v
                \<and> dumps oj v \<noteq> [] \<and> loads oj (dumps oj v) = Inr v
                \<and> (case ttl of None \<Rightarrow> True | Some n \<Rightarrow> 0 < n \<and> tc < tb + real_of_int n)"
  shows "fst (cache_get oj (snd (cache_set oj (snd (cache_get oj c key ta)) key v ttl tb)) key tc) = Inr v"
proof (cases c)
  case (InMemory store)
  with assms show ?thesis
    by (simp add: case_prod_unfold Let_def InMemoryCache_get_def InMemoryCache_set_def)
next
  case (Redis prefix r)
  with assms show ?thesis
    by (cases ttl)
       (simp_all add: case_prod_unfold Let_def RedisCache_get_result RedisCache_get_state
          RedisCache_set_state except_ConnectionError_def)
qed

lemma kept_accepted:
  assumes "case c of
             InMemory store \<Rightarrow> v \<noteq> PNone \<and> (truthy_int ttl \<longrightarrow> tc < tb + real_of_int (the ttl))
           | Redis prefix r \<Rightarrow> fault r = None \<and> key \<noteq> [] \<and> truthy v
                \<and> dumps oj v \<noteq> [] \<and> loads oj (dumps oj v) = Inr v
                \<and> (case ttl of None \<Rightarrow> True | Some n \<Rightarrow> 0 < n \<and> tc < tb + real_of_int n)"
  shows "v \<noteq> PNone"
    and "case c of InMemory s \<Rightarrow> True | Redis p r \<Rightarrow> ex_accepted ttl"
  using assms by (cases c; cases ttl; auto)+

lemma cache_get_other_key_get:
  assumes "key' \<noteq> key"
  shows "fst (cache_get oj (snd (cache_get oj c key t)) key' t') = fst (cache_get oj c key' t')"
proof (cases c)
  case (InMemory store)
  with assms show ?thesis
    by (auto simp add: case_prod_unfold Let_def InMemoryCache_get_def split: option.splits)
next
  case (Redis prefix r)
  with assms show ?thesis
    by (simp add: case_prod_unfold Let_def RedisCache_get_result RedisCache_get_state
          prefixed_inject split: option.splits)
qed

lemma cache_get_other_key_set:
  assumes "key' \<noteq> key"
  shows "fst (cache_get oj (snd (cache_set oj c key v ttl t)) key' t') = fst (cache_get oj c key' t')"
proof (cases c)
  case (InMemory store)
  with assms show ?thesis
    by (auto simp add: case_prod_unfold Let_def InMemoryCache_get_def InMemoryCache_set_def
          split: option.splits)
next
  case (Redis prefix r)
  with assms show ?thesis
    by (simp add: case_prod_unfold Let_def RedisCache_get_result RedisCache_set_state
          prefixed_inject split: option.splits)
qed

lemma wrapper_miss_counts:
  assumes "fst (cache_get oj c (wrapper_key lib opts (fname f) args kwargs) t_get) = Inr PNone"
  shows "snd (snd (snd (wrapper lib oj opts (counting f) args kwargs t_get t_set (c, (w, n))))) = Suc n"
  using assms
  by (simp add: wrapper_def Let_def case_prod_unfold counting_simps split: sum.splits)

lemma wrapper_key_default_differs:
  assumes "opt_cache_key opts = None \<or> opt_cache_key opts = Some []"
      and "opt_key_builder opts = None"
      and "default_key_builder lib name args' kwargs' \<noteq> default_key_builder lib name args kwargs"
  shows "wrapper_key lib opts name args' kwargs' \<noteq> wrapper_key lib opts name args kwargs"
  using assms by (auto simp add: wrapper_key_def Let_def split: option.splits)

text \<open>
  Claim C8, amended. After a first call that misses and whose computation returns \<open>v\<close>,
  a second call with identical arguments returns \<open>v\<close> without running the computation
  (one execution in all), provided the cache keeps \<open>v\<close> until then. For the in-memory
  backend: \<open>v\<close> is not \<open>None\<close> and, when a TTL is set, the second lookup comes before the
  store's instant plus the TTL. For the remote backend: commands reach the server, the
  key is not empty, \<open>v\<close> is truthy, its payload is not empty and decodes to \<open>v\<close>, and the
  TTL is absent or is positive with the second lookup before the store's instant plus
  the TTL. Under default fingerprinting a following call with other arguments runs the
  computation again when their fingerprint differs from the first and has no entry in
  the cache.
\<close>

theorem cached_second_call_from_cache:
  assumes key: "key = wrapper_key lib opts (fname f) args kwargs"
      and miss: "fst (cache_get oj c key ta) = Inr PNone"
      and run: "body f args kwargs w = (Inr v, w1)"
      and kept: "case c of
             InMemory store \<Rightarrow> v \<noteq> PNone
                \<and> (truthy_int (opt_ttl opts) \<longrightarrow> tc < tb + real_of_int (the (opt_ttl opts)))
           | Redis prefix r \<Rightarrow> fault r = None \<and> key \<noteq> [] \<and> truthy v
                \<and> dumps oj v \<noteq> [] \<and> loads oj (dumps oj v) = Inr v
                \<and> (case opt_ttl opts of None \<Rightarrow> True | Some n \<Rightarrow> 0 < n \<and> tc < tb + real_of_int n)"
      and s1: "s1 = wrapper lib oj opts (counting f) args kwargs ta tb (c, (w, n))"
      and s2: "s2 = wrapper lib oj opts (counting f) args kwargs tc td (snd s1)"
  shows "fst s1 = Inr v \<and> snd (snd s1) = (w1, Suc n)
         \<and> fst s2 = Inr v \<and> snd (snd s2) = (w1, Suc n)
         \<and> ((opt_cache_key opts = None \<or> opt_cache_key opts = Some [])
              \<and> opt_key_builder opts = None
              \<and> default_key_builder lib (fname f) args' kwargs' \<noteq> default_key_builder lib (fname f) args kwargs
              \<and> fst (cache_get oj c (wrapper_key lib opts (fname f) args' kwargs') te) = Inr PNone
            \<longrightarrow> snd (snd (snd (wrapper lib oj opts (counting f) args' kwargs' te tf (snd s2)))) = Suc (Suc n))"
proof -
  let ?c1 = "snd (cache_get oj c key ta)"
  let ?c2 = "snd (cache_set oj ?c1 key v (opt_ttl opts) tb)"
  let ?c3 = "snd (cache_get oj ?c2 key tc)"
  have stored: "fst (cache_set oj ?c1 key v (opt_ttl opts) tb) = Inr ()"
    using cache_set_ok_after_miss [OF miss kept_accepted(2) [OF kept]] .
  have first: "s1 = (Inr v, ?c2, (w1, Suc n))"
    using wrapper_miss_return [of oj c lib opts "counting f" args kwargs ta "(w, n)" v tb]
          miss run key s1 stored
    by (simp add: counting_simps)
  have hit: "fst (cache_get oj ?c2 key tc) = Inr v"
    using cache_get_after_set [OF kept] .
  have notnone: "v \<noteq> PNone"
    using kept_accepted(1) [OF kept] .
  have second: "s2 = (Inr v, ?c3, (w1, Suc n))"
    using wrapper_hit [of oj ?c2 lib opts "counting f" args kwargs tc v td "(w1, Suc n)"]
          hit notnone key s2 first
    by (simp add: counting_simps)
  have third: "snd (snd (snd (wrapper lib oj opts (counting f) args' kwargs' te tf (snd s2)))) = Suc (Suc n)"
    if d: "opt_cache_key opts = None \<or> opt_cache_key opts = Some []"
          "opt_key_builder opts = None"
          "default_key_builder lib (fname f) args' kwargs' \<noteq> default_key_builder lib (fname f) args kwargs"
       and m: "fst (cache_get oj c (wrapper_key lib opts (fname f) args' kwargs') te) = Inr PNone"
  proof -
    let ?key' = "wrapper_key lib opts (fname f) args' kwargs'"
    have ne: "?key' \<noteq> key"
      using wrapper_key_default_differs [OF d] key by simp
    have "fst (cache_get oj ?c3 ?key' te) = fst (cache_get oj c ?key' te)"
      using ne by (simp add: cache_get_other_key_get cache_get_other_key_set)
    with m have "fst (cache_get oj ?c3 ?key' te) = Inr PNone" by simp
    from wrapper_miss_counts [OF this, of tf w1 "Suc n"] second show ?thesis by simp
  qed
  show ?thesis using first second third by simp
qed

text \<open>
  Claim C8, as stated, fails. With the remote backend a computation that returns 0 is
  never stored (\<open>RedisCache.set\<close> returns on a falsy value), so two calls with identical
  arguments under a fixed key run it twice. Two different arguments whose rendering is
  the same text have the same default fingerprint, so the call with the second is served
  with the value of the first and the computation does not run again. An entry stored
  with a TTL is gone when the TTL has passed, and the second call runs the computation
  again. With a TTL of 0 the server rejects the store command: the first call raises
  after running the computation, and the second runs it again. And a different argument
  that was cached by an earlier call does not run the computation again.
\<close>

theorem cached_twice_counterexample:
  "snd (snd (snd
     (wrapper sample_pylib sample_orjson fixed_key_opts (counting zero_func) [PInt 1] [] 0 0
        (snd (wrapper sample_pylib sample_orjson fixed_key_opts (counting zero_func) [PInt 1] [] 0 0
                (Redis None empty_redis, ((), 0))))))) = 2
   \<and> obj_two \<noteq> obj_one
   \<and> snd (snd (snd
     (wrapper sample_pylib sample_orjson plain_opts (counting answer_func) [obj_two] [] 0 0
        (snd (wrapper sample_pylib sample_orjson plain_opts (counting answer_func) [obj_one] [] 0 0
                (InMemory Map.empty, ((), 0))))))) = 1
   \<and> snd (snd (snd
     (wrapper sample_pylib sample_orjson day_opts (counting answer_func) [PInt 1] [] 86400 86400
        (snd (wrapper sample_pylib sample_orjson day_opts (counting answer_func) [PInt 1] [] 0 0
                (Redis None empty_redis, ((), 0))))))) = 2
   \<and> fst (wrapper sample_pylib sample_orjson zero_ttl_opts (counting answer_func) [PInt 1] [] 0 0
                (Redis None empty_redis, ((), 0))) = Inl ResponseError
   \<and> snd (snd (snd
     (wrapper sample_pylib sample_orjson zero_ttl_opts (counting answer_func) [PInt 1] [] 0 0
        (snd (wrapper sample_pylib sample_orjson zero_ttl_opts (counting answer_func) [PInt 1] [] 0 0
                (Redis None empty_redis, ((), 0))))))) = 2
   \<and> snd (snd (snd
     (wrapper sample_pylib sample_orjson plain_opts (counting answer_func) [PInt 2] [] 0 0
        (snd (wrapper sample_pylib sample_orjson plain_opts (counting answer_func) [PInt 1] [] 0 0
        (snd (wrapper sample_pylib sample_orjson plain_opts (counting answer_func) [PInt 1] [] 0 0
        (snd (wrapper sample_pylib sample_orjson plain_opts (counting answer_func) [PInt 2] [] 0 0
                (InMemory Map.empty, ((), 0))))))))))) = 2"
proof -
  have falsy: "snd (snd (snd
     (wrapper sample_pylib sample_orjson fixed_key_opts (counting zero_func) [PInt 1] [] 0 0
        (snd (wrapper sample_pylib sample_orjson fixed_key_opts (counting zero_func) [PInt 1] [] 0 0
                (Redis None empty_redis, ((), 0))))))) = 2"
    by (simp add: wrapper_def wrapper_key_def fixed_key_opts_def counting_simps zero_func_def
          case_prod_unfold Let_def RedisCache_get_result RedisCache_get_state
          RedisCache_set_result RedisCache_set_state empty_redis_def prefixed_def
          except_ConnectionError_def)
  have differ: "obj_two \<noteq> obj_one"
    by (simp add: obj_one_def obj_two_def)
  have same_text: "snd (snd (snd
     (wrapper sample_pylib sample_orjson plain_opts (counting answer_func) [obj_two] [] 0 0
        (snd (wrapper sample_pylib sample_orjson plain_opts (counting answer_func) [obj_one] [] 0 0
                (InMemory Map.empty, ((), 0))))))) = 1"
    by (simp add: wrapper_def wrapper_key_def plain_opts_def default_key_builder_def
          sample_pylib_def obj_one_def obj_two_def counting_simps answer_func_def
          case_prod_unfold Let_def InMemoryCache_get_def InMemoryCache_set_def)
  have expired: "snd (snd (snd
     (wrapper sample_pylib sample_orjson day_opts (counting answer_func) [PInt 1] [] 86400 86400
        (snd (wrapper sample_pylib sample_orjson day_opts (counting answer_func) [PInt 1] [] 0 0
                (Redis None empty_redis, ((), 0))))))) = 2"
    by (simp add: wrapper_def wrapper_key_def day_opts_def default_key_builder_def
          sample_pylib_def sample_orjson_def counting_simps answer_func_def
          case_prod_unfold Let_def RedisCache_get_result RedisCache_get_state
          RedisCache_set_result RedisCache_set_state empty_redis_def prefixed_def
          except_ConnectionError_def)
  have rejected: "wrapper sample_pylib sample_orjson zero_ttl_opts (counting answer_func) [PInt 1] [] 0 0
                (Redis None empty_redis, ((), 0))
       = (Inl ResponseError,
          Redis None (empty_redis\<lparr>issued := [GET ''k'', SET ''k'' ''42'' (Some 0)]\<rparr>), ((), 1))"
    by (simp add: wrapper_def wrapper_key_def zero_ttl_opts_def
          sample_orjson_def counting_simps answer_func_def
          case_prod_unfold Let_def RedisCache_get_result RedisCache_get_state
          RedisCache_set_result RedisCache_set_state empty_redis_def prefixed_def
          except_ConnectionError_def)
  have rejected_again: "snd (snd (snd
     (wrapper sample_pylib sample_orjson zero_ttl_opts (counting answer_func) [PInt 1] [] 0 0
        (Redis None (empty_redis\<lparr>issued := [GET ''k'', SET ''k'' ''42'' (Some 0)]\<rparr>), ((), 1))))) = 2"
    by (simp add: wrapper_def wrapper_key_def zero_ttl_opts_def
          sample_orjson_def counting_simps answer_func_def
          case_prod_unfold Let_def RedisCache_get_result RedisCache_get_state
          RedisCache_set_result RedisCache_set_state empty_redis_def prefixed_def
          except_ConnectionError_def)
  have seen_before: "snd (snd (snd
     (wrapper sample_pylib sample_orjson plain_opts (counting answer_func) [PInt 2] [] 0 0
        (snd (wrapper sample_pylib sample_orjson plain_opts (counting answer_func) [PInt 1] [] 0 0
        (snd (wrapper sample_pylib sample_orjson plain_opts (counting answer_func) [PInt 1] [] 0 0
        (snd (wrapper sample_pylib sample_orjson plain_opts (counting answer_func) [PInt 2] [] 0 0
                (InMemory Map.empty, ((), 0))))))))))) = 2"
    by (simp add: wrapper_def wrapper_key_def plain_opts_def default_key_builder_def
          sample_pylib_def counting_simps answer_func_def
          case_prod_unfold Let_def InMemoryCache_get_def InMemoryCache_set_def)
  from falsy differ same_text expired rejected rejected_again seen_before show ?thesis
    by simp
qed

theorem cached_second_call_from_cache_witness:
  "fst (wrapper sample_pylib sample_orjson day_opts (counting answer_func) [PInt 1] [] 0 0
          (Redis None empty_redis, ((), 0))) = Inr (PInt 42)
   \<and> snd (snd (wrapper sample_pylib sample_orjson day_opts (counting answer_func) [PInt 1] [] 0 0
          (Redis None empty_redis, ((), 0)))) = ((), 1)
   \<and> fst (wrapper sample_pylib sample_orjson day_opts (counting answer_func) [PInt 1] [] 100 100
        (snd (wrapper sample_pylib sample_orjson day_opts (counting answer_func) [PInt 1] [] 0 0
          (Redis None empty_redis, ((), 0))))) = Inr (PInt 42)
   \<and> snd (snd (wrapper sample_pylib sample_orjson day_opts (counting answer_func) [PInt 1] [] 100 100
        (snd (wrapper sample_pylib sample_orjson day_opts (counting answer_func) [PInt 1] [] 0 0
          (Redis None empty_redis, ((), 0)))))) = ((), 1)
   \<and> snd (snd (snd (wrapper sample_pylib sample_orjson day_opts (counting answer_func) [PInt 2] [] 200 200
        (snd (wrapper sample_pylib sample_orjson day_opts (counting answer_func) [PInt 1] [] 100 100
        (snd (wrapper sample_pylib sample_orjson day_opts (counting answer_func) [PInt 1] [] 0 0
          (Redis None empty_redis, ((), 0))))))))) = 2"
proof -
  let ?key = "wrapper_key sample_pylib day_opts (fname answer_func) [PInt 1] []"
  have k: "?key = ''sso:answer:((1,), {}):{}''"
    by (simp add: wrapper_key_def day_opts_def default_key_builder_def sample_pylib_def answer_func_def)
  have k': "wrapper_key sample_pylib day_opts (fname answer_func) [PInt 2] [] = ''sso:answer:((2,), {}):{}''"
    by (simp add: wrapper_key_def day_opts_def default_key_builder_def sample_pylib_def answer_func_def)
  have miss: "fst (cache_get sample_orjson (Redis None empty_redis) ?key 0) = Inr PNone"
    by (simp add: k case_prod_unfold RedisCache_get_result empty_redis_def except_ConnectionError_def)
  have miss': "fst (cache_get sample_orjson (Redis None empty_redis)
                 (wrapper_key sample_pylib day_opts (fname answer_func) [PInt 2] []) 200) = Inr PNone"
    by (simp add: k' case_prod_unfold RedisCache_get_result empty_redis_def except_ConnectionError_def)
  have run: "body answer_func [PInt 1] [] () = (Inr (PInt 42), ())"
    by (simp add: answer_func_def)
  have ttl: "opt_ttl day_opts = Some 86400"
    by (simp add: day_opts_def)
  have kept: "case Redis None empty_redis of
             InMemory store \<Rightarrow> PInt 42 \<noteq> PNone
                \<and> (truthy_int (opt_ttl day_opts) \<longrightarrow> (100::real) < 0 + real_of_int (the (opt_ttl day_opts)))
           | Redis prefix r \<Rightarrow> fault r = None \<and> ?key \<noteq> [] \<and> truthy (PInt 42)
                \<and> dumps sample_orjson (PInt 42) \<noteq> []
                \<and> loads sample_orjson (dumps sample_orjson (PInt 42)) = Inr (PInt 42)
                \<and> (case opt_ttl day_opts of None \<Rightarrow> True
                     | Some n \<Rightarrow> 0 < n \<and> (100::real) < 0 + real_of_int n)"
    by (simp add: k ttl empty_redis_def sample_orjson_def)
  have d: "opt_cache_key day_opts = None \<or> opt_cache_key day_opts = Some []"
          "opt_key_builder day_opts = None"
          "default_key_builder sample_pylib (fname answer_func) [PInt 2] []
             \<noteq> default_key_builder sample_pylib (fname answer_func) [PInt 1] []"
    by (simp_all add: day_opts_def default_key_builder_def sample_pylib_def)
  show ?thesis
    using cached_second_call_from_cache [OF refl miss run kept refl refl,
            where td = 100 and n = 0 and args' = "[PInt 2]" and kwargs' = "[]" and te = 200 and tf = 200]
          d miss'
    by simp
qed

section \<open>Properties of SessionMiddleware\<close>

lemma str_int_example: "str_int 1209600 = ''1209600''"
  by (simp add: str_int_def str_nat.simps)

lemma default_mw_fields:
  "mw_session_cookie default_mw = ''session''"
  "mw_max_age default_mw = Some 1209600"
  "mw_path default_mw = ''/''"
  "mw_security_flags default_mw = ''httponly; samesite=lax''"
  "mw_prefix default_mw = Some ''session''"
  by (simp_all add: default_mw_def SessionMiddleware_init_def mw_prefix_def)




lemma hydrate_unfold:
  "hydrate oj mw sc r now =
     (case cookies sc (mw_session_cookie mw) of
        None \<Rightarrow> (Inr (None, True, PDict []), r)
      | Some t \<Rightarrow>
          (case fst (RedisCache_get oj (mw_prefix mw) r t now) of
             Inl e \<Rightarrow> (Inl e, snd (RedisCache_get oj (mw_prefix mw) r t now))
           | Inr d \<Rightarrow>
               if truthy d
               then (Inr (Some t, False, d), snd (RedisCache_get oj (mw_prefix mw) r t now))
               else (Inr (Some t, True, PDict []), snd (RedisCache_get oj (mw_prefix mw) r t now))))"
  by (simp add: hydrate_def case_prod_unfold Let_def split: option.splits)

lemma hydrate_value:
  assumes "hydrate oj mw sc r now = (Inr (v, ie, data), r1)"
  shows "v = cookies sc (mw_session_cookie mw)"
proof (cases "cookies sc (mw_session_cookie mw)")
  case None
  with assms show ?thesis by (simp add: hydrate_unfold)
next
  case (Some t)
  with assms show ?thesis
    by (simp add: hydrate_unfold split: sum.splits if_splits)
qed


lemma send_wrapper_persist:
  assumes "mtype m = ''http.response.start''" and "truthy sess"
  shows "send_wrapper oj mw v ie tok sess r now m
           = (case fst (RedisCache_set oj (mw_prefix mw) r (choose_token v tok) sess (mw_max_age mw) now) of
                Inl e \<Rightarrow> Inl e
              | Inr u \<Rightarrow> Inr (append_set_cookie m (persist_header mw (choose_token v tok))),
              snd (RedisCache_set oj (mw_prefix mw) r (choose_token v tok) sess (mw_max_age mw) now))"
  using assms
  by (simp add: send_wrapper_def Let_def case_prod_unfold split: sum.splits)



lemma send_wrapper_other_message:
  assumes "mtype m \<noteq> ''http.response.start''"
  shows "send_wrapper oj mw v ie tok sess r now m = (Inr m, r)"
  using assms by (simp add: send_wrapper_def)


lemma sample_dumps_user: "dumps sample_orjson user_session = ''{\"user_id\":42}''"
  by (simp add: sample_orjson_def user_session_def)

lemma sample_loads_user: "loads sample_orjson ''{\"user_id\":42}'' = Inr user_session"
  by (simp add: sample_orjson_def user_session_def)

lemma truthy_user: "truthy user_session"
  by (simp add: user_session_def)

lemma scope_of_fields:
  "stype (scope_of ty cs) = ty"
  "cookies (scope_of ty cs) = cs"
  "session (scope_of ty cs) = None"
  by (simp_all add: scope_of_def)

lemma start_message_type: "mtype start_message = ''http.response.start''"
  by (simp add: start_message_def)


lemma hydrate_known_cookie:
  "hydrate sample_orjson default_mw (scope_of ty [''session'' \<mapsto> ''abc'']) redis_with_session now
     = (Inr (Some ''abc'', False, user_session),
        redis_with_session\<lparr>issued := [GET ''session:abc'']\<rparr>)"
  by (simp add: hydrate_unfold scope_of_def default_mw_fields RedisCache_get_result
        RedisCache_get_state prefixed_def except_ConnectionError_def redis_with_session_def
        sample_loads_user truthy_user)

lemma hydrate_stale_cookie:
  "hydrate sample_orjson default_mw (scope_of ty [''session'' \<mapsto> ''stale'']) empty_redis now
     = (Inr (Some ''stale'', True, PDict []), empty_redis\<lparr>issued := [GET ''session:stale'']\<rparr>)"
  by (simp add: hydrate_unfold scope_of_def default_mw_fields RedisCache_get_result
        RedisCache_get_state prefixed_def except_ConnectionError_def empty_redis_def)



text \<open>
  Claim C7, as stated, fails: a request whose cookie carries a token unknown to the
  store, and whose handler puts data into the session, has the session stored under the
  cookie's token and that token sent back; the minted token is not used.
\<close>

theorem stale_token_reused_counterexample:
  "SessionMiddleware_call sample_orjson default_mw (\<lambda>i. ''FRESH'') (\<lambda>i. 0) login_app
      (scope_of ''http'' [''session'' \<mapsto> ''stale'']) empty_redis
     = \<lparr>sent = [\<lparr>mtype = ''http.response.start'',
                  headers = [(''set-cookie'',
                              ''session=stale; path=/; Max-Age=1209600; httponly; samesite=lax'')],
                  rest = []\<rparr>],
        backend = \<lparr>fault = None,
                   kv = [''session:stale'' \<mapsto> (''{\"user_id\":42}'', Some 1209600)],
                   issued = [GET ''session:stale'',
                             SET ''session:stale'' ''{\"user_id\":42}'' (Some 1209600)]\<rparr>,
        final_session = Some user_session, raised = None\<rparr>
   \<and> kv (backend (SessionMiddleware_call sample_orjson default_mw (\<lambda>i. ''FRESH'') (\<lambda>i. 0) login_app
                  (scope_of ''http'' [''session'' \<mapsto> ''stale'']) empty_redis))
      ''session:FRESH'' = None"
proof -
  have sw: "send_wrapper sample_orjson default_mw (Some ''stale'') True ''FRESH'' user_session
              (empty_redis\<lparr>issued := [GET ''session:stale'']\<rparr>) 0 start_message
            = (Inr \<lparr>mtype = ''http.response.start'',
                    headers = [(''set-cookie'',
                                ''session=stale; path=/; Max-Age=1209600; httponly; samesite=lax'')],
                    rest = []\<rparr>,
               \<lparr>fault = None,
                kv = [''session:stale'' \<mapsto> (''{\"user_id\":42}'', Some 1209600)],
                issued = [GET ''session:stale'',
                          SET ''session:stale'' ''{\"user_id\":42}'' (Some 1209600)]\<rparr>)"
    unfolding send_wrapper_persist [OF start_message_type truthy_user]
    by (simp add: choose_token_def
          persist_header_def append_set_cookie_def str_int_example
          RedisCache_set_result RedisCache_set_state truthy_user default_mw_fields
          prefixed_def sample_dumps_user empty_redis_def start_message_def)
  have "SessionMiddleware_call sample_orjson default_mw (\<lambda>i. ''FRESH'') (\<lambda>i. 0) login_app
      (scope_of ''http'' [''session'' \<mapsto> ''stale'']) empty_redis
     = \<lparr>sent = [\<lparr>mtype = ''http.response.start'',
                  headers = [(''set-cookie'',
                              ''session=stale; path=/; Max-Age=1209600; httponly; samesite=lax'')],
                  rest = []\<rparr>],
        backend = \<lparr>fault = None,
                   kv = [''session:stale'' \<mapsto> (''{\"user_id\":42}'', Some 1209600)],
                   issued = [GET ''session:stale'',
                             SET ''session:stale'' ''{\"user_id\":42}'' (Some 1209600)]\<rparr>,
        final_session = Some user_session, raised = None\<rparr>"
    by (simp add: SessionMiddleware_call_def scope_of_fields hydrate_stale_cookie
          login_app_def sw)
  then show ?thesis by simp
qed

text \<open>
  Claim C7, amended. Whether the lookup of the cookie's token hit or missed, a non-empty
  session is persisted under the token of the request's cookie whenever the cookie has a
  non-empty value; a token is minted only when the request has no session cookie or an
  empty one. The store command of \<open>cache.set\<close> is issued for that token, and unless it
  raises the message is passed on with a \<open>set-cookie\<close> header that carries that token.
\<close>

theorem persist_token_from_cookie:
  assumes entry: "hydrate oj mw sc r0 t0 = (Inr (v, ie, data), r1)"
      and start: "mtype m = ''http.response.start''"
      and nonempty: "truthy sess"
      and token: "token = (case cookies sc (mw_session_cookie mw) of
                             None \<Rightarrow> tok
                           | Some t \<Rightarrow> if t \<noteq> [] then t else tok)"
      and stored: "stored = RedisCache_set oj (mw_prefix mw) r token sess (mw_max_age mw) now"
  shows "snd (send_wrapper oj mw v ie tok sess r now m) = snd stored
         \<and> fst (send_wrapper oj mw v ie tok sess r now m)
             = (case fst stored of
                  Inl e \<Rightarrow> Inl e
                | Inr u \<Rightarrow>
                    Inr (m\<lparr>headers := headers m @
                          [(''set-cookie'',
                            mw_session_cookie mw @ ''='' @ token @ ''; path='' @ mw_path mw @ ''; ''
                            @ (if truthy_int (mw_max_age mw)
                               then ''Max-Age='' @ str_int (the (mw_max_age mw)) @ ''; '' else [])
                            @ mw_security_flags mw)]\<rparr>))"
proof -
  have "v = cookies sc (mw_session_cookie mw)"
    using hydrate_value [OF entry] .
  then have "choose_token v tok = token"
    using token by (simp add: choose_token_def)
  with send_wrapper_persist [OF start nonempty, of oj mw v ie tok r now] stored show ?thesis
    by (simp add: append_set_cookie_def persist_header_def split: sum.splits)
qed

theorem persist_token_from_cookie_witness:
  "snd (send_wrapper sample_orjson default_mw (Some ''stale'') True ''FRESH'' user_session
          (empty_redis\<lparr>issued := [GET ''session:stale'']\<rparr>) 0 start_message)
     = \<lparr>fault = None,
        kv = [''session:stale'' \<mapsto> (''{\"user_id\":42}'', Some 1209600)],
        issued = [GET ''session:stale'',
                  SET ''session:stale'' ''{\"user_id\":42}'' (Some 1209600)]\<rparr>
   \<and> fst (send_wrapper sample_orjson default_mw (Some ''stale'') True ''FRESH'' user_session
          (empty_redis\<lparr>issued := [GET ''session:stale'']\<rparr>) 0 start_message)
     = Inr \<lparr>mtype = ''http.response.start'',
            headers = [(''set-cookie'',
                        ''session=stale; path=/; Max-Age=1209600; httponly; samesite=lax'')],
            rest = []\<rparr>"
proof -
  have token: "''stale'' = (case cookies (scope_of ''http'' [''session'' \<mapsto> ''stale''])
                                   (mw_session_cookie default_mw) of
                             None \<Rightarrow> ''FRESH''
                           | Some t \<Rightarrow> if t \<noteq> [] then t else ''FRESH'')"
    by (simp add: scope_of_fields default_mw_fields)
  have st: "RedisCache_set sample_orjson (mw_prefix default_mw)
              (empty_redis\<lparr>issued := [GET ''session:stale'']\<rparr>) ''stale'' user_session
              (mw_max_age default_mw) 0
            = (Inr (),
               \<lparr>fault = None,
                kv = [''session:stale'' \<mapsto> (''{\"user_id\":42}'', Some 1209600)],
                issued = [GET ''session:stale'',
                          SET ''session:stale'' ''{\"user_id\":42}'' (Some 1209600)]\<rparr>)"
    by (simp add: prod_eq_iff RedisCache_set_result RedisCache_set_state truthy_user
          default_mw_fields prefixed_def sample_dumps_user empty_redis_def)
  note th = persist_token_from_cookie
            [OF hydrate_stale_cookie [of "''http''" 0] start_message_type truthy_user token refl,
             of "empty_redis\<lparr>issued := [GET ''session:stale'']\<rparr>" 0]
  from th show ?thesis
    unfolding st
    by (simp add: default_mw_fields str_int_example start_message_def)
qed

lemma run_wrapped_without_start:
  assumes "\<forall>m. Send m \<in> set acts \<longrightarrow> mtype m \<noteq> ''http.response.start''"
  shows "run_wrapped oj mw v ie fresh clock acts sess r out
           = \<lparr>sent = snd (run_plain acts (Some sess) out), backend = r,
              final_session = fst (run_plain acts (Some sess) out), raised = None\<rparr>"
  using assms
proof (induction acts arbitrary: sess out)
  case Nil
  show ?case by simp
next
  case (Cons a acts)
  show ?case
  proof (cases a)
    case (SetSession s)
    with Cons show ?thesis by simp
  next
    case (Send m)
    with Cons.prems have "mtype m \<noteq> ''http.response.start''" by simp
    then have "send_wrapper oj mw v ie (fresh (length out)) sess r (clock (Suc (length out))) m
                 = (Inr m, r)"
      by (rule send_wrapper_other_message)
    with Cons Send show ?thesis by simp
  qed
qed

lemma unexpired_idem: "unexpired now (unexpired now entry) = unexpired now entry"
  using unexpired_cases [of now entry] by auto

lemma RedisCache_get_reads_only:
  "map_le (kv (snd (RedisCache_get oj prefix r key now))) (kv r)
   \<and> (\<forall>k. unexpired now (kv (snd (RedisCache_get oj prefix r key now)) k) = unexpired now (kv r k))"
proof (cases "key = [] \<or> fault r \<noteq> None")
  case True
  then show ?thesis
    by (auto simp add: RedisCache_get_state map_le_def)
next
  case False
  then have st: "kv (snd (RedisCache_get oj prefix r key now))
                   = (kv r)(prefixed prefix key := unexpired now (kv r (prefixed prefix key)))"
    by (auto simp add: RedisCache_get_state)
  have "map_le ((kv r)(prefixed prefix key := unexpired now (kv r (prefixed prefix key)))) (kv r)"
    using unexpired_cases [of now "kv r (prefixed prefix key)"]
    by (auto simp add: map_le_def)
  moreover have "\<forall>k. unexpired now (((kv r)(prefixed prefix key := unexpired now (kv r (prefixed prefix key)))) k)
                   = unexpired now (kv r k)"
    by (simp add: unexpired_idem)
  ultimately show ?thesis by (simp only: st simp_thms)
qed

lemma hydrate_reads_only:
  assumes "hydrate oj mw sc r now = (res, r1)"
  shows "map_le (kv r1) (kv r) \<and> (\<forall>k. unexpired now (kv r1 k) = unexpired now (kv r k))"
proof (cases "cookies sc (mw_session_cookie mw)")
  case None
  with assms have "r1 = r" by (simp add: hydrate_unfold)
  then show ?thesis by simp
next
  case (Some t)
  with assms have "r1 = snd (RedisCache_get oj (mw_prefix mw) r t now)"
    by (auto simp add: hydrate_unfold split: sum.splits if_splits)
  with RedisCache_get_reads_only [of oj "mw_prefix mw" r t now] show ?thesis by simp
qed

text \<open>
  Claim C9, as stated, fails for a websocket connection: the middleware looks the
  cookie's token up in the store and the application sees the hydrated session, where a
  pass-through would have shown it none.
\<close>

theorem websocket_hydrated_counterexample:
  "SessionMiddleware_call sample_orjson default_mw (\<lambda>i. ''FRESH'') (\<lambda>i. 0) echo_app
      (scope_of ''websocket'' [''session'' \<mapsto> ''abc'']) redis_with_session
     = \<lparr>sent = [\<lparr>mtype = ''websocket.accept'', headers = [], rest = ''user 42''\<rparr>],
        backend = \<lparr>fault = None, kv = [''session:abc'' \<mapsto> (''{\"user_id\":42}'', None)],
                   issued = [GET ''session:abc'']\<rparr>,
        final_session = Some user_session, raised = None\<rparr>
   \<and> run_plain (echo_app (scope_of ''websocket'' [''session'' \<mapsto> ''abc''])) None []
     = (None, [\<lparr>mtype = ''websocket.accept'', headers = [], rest = ''anonymous''\<rparr>])"
proof -
  have "SessionMiddleware_call sample_orjson default_mw (\<lambda>i. ''FRESH'') (\<lambda>i. 0) echo_app
          (scope_of ''websocket'' [''session'' \<mapsto> ''abc'']) redis_with_session
        = \<lparr>sent = [\<lparr>mtype = ''websocket.accept'', headers = [], rest = ''user 42''\<rparr>],
           backend = redis_with_session\<lparr>issued := [GET ''session:abc'']\<rparr>,
           final_session = Some user_session, raised = None\<rparr>"
    by (simp add: SessionMiddleware_call_def scope_of_fields hydrate_known_cookie echo_app_def
          send_wrapper_other_message)
  moreover have "run_plain (echo_app (scope_of ''websocket'' [''session'' \<mapsto> ''abc''])) None []
     = (None, [\<lparr>mtype = ''websocket.accept'', headers = [], rest = ''anonymous''\<rparr>])"
    by (simp add: echo_app_def scope_of_fields)
  ultimately show ?thesis by (simp add: redis_with_session_def)
qed

text \<open>
  Claim C9, amended. A connection whose type is neither \<open>http\<close> nor \<open>websocket\<close> is passed
  to the application as it is: no hydration, no store access, every message sent as the
  application sent it. A websocket connection is hydrated on entry like an HTTP request;
  as long as the application sends no \<open>http.response.start\<close> message, its messages go
  out unchanged and the store is only read: no entry is added or altered, and what the
  server holds unexpired at the lookup is the same after it as before.
\<close>

theorem non_http_passthrough:
  "(stype sc \<noteq> ''http'' \<and> stype sc \<noteq> ''websocket'' \<longrightarrow>
      SessionMiddleware_call oj mw fresh clock app sc r
        = \<lparr>sent = snd (run_plain (app sc) (session sc) []), backend = r,
           final_session = fst (run_plain (app sc) (session sc) []), raised = None\<rparr>)
   \<and> (stype sc = ''websocket'' \<and> hydrate oj mw sc r (clock 0) = (Inr (v, ie, data), r1)
        \<and> (\<forall>m. Send m \<in> set (app (sc\<lparr>session := Some data\<rparr>)) \<longrightarrow> mtype m \<noteq> ''http.response.start'')
      \<longrightarrow>
      SessionMiddleware_call oj mw fresh clock app sc r
        = \<lparr>sent = snd (run_plain (app (sc\<lparr>session := Some data\<rparr>)) (Some data) []), backend = r1,
           final_session = fst (run_plain (app (sc\<lparr>session := Some data\<rparr>)) (Some data) []),
           raised = None\<rparr>
      \<and> map_le (kv r1) (kv r)
      \<and> (\<forall>k. unexpired (clock 0) (kv r1 k) = unexpired (clock 0) (kv r k)))"
proof -
  have one: "SessionMiddleware_call oj mw fresh clock app sc r
        = \<lparr>sent = snd (run_plain (app sc) (session sc) []), backend = r,
           final_session = fst (run_plain (app sc) (session sc) []), raised = None\<rparr>"
    if "stype sc \<noteq> ''http''" "stype sc \<noteq> ''websocket''"
    using that by (simp add: SessionMiddleware_call_def case_prod_unfold Let_def)
  have two: "SessionMiddleware_call oj mw fresh clock app sc r
        = \<lparr>sent = snd (run_plain (app (sc\<lparr>session := Some data\<rparr>)) (Some data) []), backend = r1,
           final_session = fst (run_plain (app (sc\<lparr>session := Some data\<rparr>)) (Some data) []),
           raised = None\<rparr>
      \<and> map_le (kv r1) (kv r)
      \<and> (\<forall>k. unexpired (clock 0) (kv r1 k) = unexpired (clock 0) (kv r k))"
    if ws: "stype sc = ''websocket''"
    and h: "hydrate oj mw sc r (clock 0) = (Inr (v, ie, data), r1)"
    and n: "\<forall>m. Send m \<in> set (app (sc\<lparr>session := Some data\<rparr>)) \<longrightarrow> mtype m \<noteq> ''http.response.start''"
    using ws h run_wrapped_without_start [OF n, of oj mw v ie fresh clock data r1 "[]"]
          hydrate_reads_only [OF h]
    by (simp add: SessionMiddleware_call_def)
  from one two show ?thesis by blast
qed

theorem non_http_passthrough_witness:
  "SessionMiddleware_call sample_orjson default_mw (\<lambda>i. ''FRESH'') (\<lambda>i. 0) echo_app
      (scope_of ''lifespan'' [''session'' \<mapsto> ''abc'']) redis_with_session
     = \<lparr>sent = [\<lparr>mtype = ''websocket.accept'', headers = [], rest = ''anonymous''\<rparr>],
        backend = redis_with_session, final_session = None, raised = None\<rparr>
   \<and> SessionMiddleware_call sample_orjson default_mw (\<lambda>i. ''FRESH'') (\<lambda>i. 0) echo_app
      (scope_of ''websocket'' [''session'' \<mapsto> ''abc'']) redis_with_session
     = \<lparr>sent = [\<lparr>mtype = ''websocket.accept'', headers = [], rest = ''user 42''\<rparr>],
        backend = redis_with_session\<lparr>issued := [GET ''session:abc'']\<rparr>,
        final_session = Some user_session, raised = None\<rparr>
   \<and> map_le (kv (redis_with_session\<lparr>issued := [GET ''session:abc'']\<rparr>)) (kv redis_with_session)"
proof -
  note A = non_http_passthrough
    [of "scope_of ''lifespan'' [''session'' \<mapsto> ''abc'']" sample_orjson default_mw
        "\<lambda>i. ''FRESH''" "\<lambda>i. 0" echo_app redis_with_session]
  note B = non_http_passthrough
    [of "scope_of ''websocket'' [''session'' \<mapsto> ''abc'']" sample_orjson default_mw
        "\<lambda>i. ''FRESH''" "\<lambda>i. 0" echo_app redis_with_session "Some ''abc''" False user_session
        "redis_with_session\<lparr>issued := [GET ''session:abc'']\<rparr>"]
  have a: "SessionMiddleware_call sample_orjson default_mw (\<lambda>i. ''FRESH'') (\<lambda>i. 0) echo_app
      (scope_of ''lifespan'' [''session'' \<mapsto> ''abc'']) redis_with_session
     = \<lparr>sent = [\<lparr>mtype = ''websocket.accept'', headers = [], rest = ''anonymous''\<rparr>],
        backend = redis_with_session, final_session = None, raised = None\<rparr>"
    using conjunct1 [OF A] by (simp add: scope_of_fields echo_app_def)
  have b: "SessionMiddleware_call sample_orjson default_mw (\<lambda>i. ''FRESH'') (\<lambda>i. 0) echo_app
      (scope_of ''websocket'' [''session'' \<mapsto> ''abc'']) redis_with_session
     = \<lparr>sent = [\<lparr>mtype = ''websocket.accept'', headers = [], rest = ''user 42''\<rparr>],
        backend = redis_with_session\<lparr>issued := [GET ''session:abc'']\<rparr>,
        final_session = Some user_session, raised = None\<rparr>
   \<and> map_le (kv (redis_with_session\<lparr>issued := [GET ''session:abc'']\<rparr>)) (kv redis_with_session)"
    using conjunct2 [OF B] hydrate_known_cookie [of "''websocket''" 0]
    by (simp add: scope_of_fields echo_app_def)
  from a b show ?thesis by (simp only: simp_thms)
qed

end
